theory Spec2Isabelle
  imports Main "HOL-Library.Sublist" "HOL-Library.Word"
begin

section \<open>The socket layer of lib/Socket/socket.js\<close>

text \<open>
  A shallow embedding of \<^verbatim>\<open>makeSocket\<close> and of the closures it creates. Every closure
  becomes a function over the variables it captures; calls into collaborators that are
  not part of the file (logger, transport client, event buffer, codec) are recorded as
  effects, in the order in which the code performs them.
\<close>

subsection \<open>JavaScript values used by the file\<close>

text \<open>
  Numbers. \<^verbatim>\<open>epoch\<close> is a JavaScript number, that is an IEEE double. Every integer up to
  \<open>2^53\<close> is a double; from \<open>2^53\<close> to \<open>2^54\<close> only the even integers are, and above
  only multiples of larger powers of two. \<open>x + 1\<close> is rounded to the nearest double, ties
  to the even significand. On the non-negative integer-valued doubles this is:
\<close>

definition js_incr :: "nat \<Rightarrow> nat" where
  "js_incr x =
     (if x < 2 ^ 53 then x + 1
      else if x < 2 ^ 54 \<and> x mod 4 = 2 then x + 2
      else x)"

text \<open>
  \<^verbatim>\<open>`${n}`\<close> for an integer-valued number below \<open>10^21\<close> is its decimal numeral
  (above, the exponent notation is used; the counter never gets there).
\<close>

definition digit :: "nat \<Rightarrow> char" where
  "digit d = ''0123456789'' ! d"

fun number_toString :: "nat \<Rightarrow> string" where
  "number_toString n =
     (if n < 10 then [digit n] else number_toString (n div 10) @ [digit (n mod 10)])"

declare number_toString.simps [simp del]

text \<open>Reading a decimal numeral back (used to speak about the numeric value of a suffix).\<close>

definition parse_decimal :: "string \<Rightarrow> nat" where
  "parse_decimal s = foldl (\<lambda>a c. 10 * a + (of_char c - 48)) 0 s"


text \<open>
  Strings are byte lists. \<^verbatim>\<open>toLowerCase\<close> maps the ASCII capitals to small letters and
  leaves every other byte as it is; the patterns the file searches for are ASCII.
  \<^verbatim>\<open>s.includes(p)\<close> holds when \<open>p\<close> occurs in \<open>s\<close> as a contiguous block.
\<close>

definition toLowerCase_char :: "char \<Rightarrow> char" where
  "toLowerCase_char c =
     (case map_of (zip ''ABCDEFGHIJKLMNOPQRSTUVWXYZ'' ''abcdefghijklmnopqrstuvwxyz'') c of
        Some l \<Rightarrow> l
      | None \<Rightarrow> c)"

definition toLowerCase :: "string \<Rightarrow> string" where
  "toLowerCase s = map toLowerCase_char s"

fun str_includes :: "string \<Rightarrow> string \<Rightarrow> bool" where
  "str_includes [] p = (p = [])"
| "str_includes (c # cs) p = (prefix p (c # cs) \<or> str_includes cs p)"

text \<open>
  The values that occur as properties of the credentials and of an update. Objects live
  in a store and are referred to by address, so that \<^verbatim>\<open>===\<close> on two values is equality
  of the two terms (numbers are integers here: no \<^verbatim>\<open>NaN\<close>).
\<close>

type_synonym buffer = "8 word list"

datatype jsval = JUndefined | JNull | JBool bool | JNum int | JStr string | JRef nat

type_synonym object = "string \<rightharpoonup> jsval"

fun truthy :: "jsval \<Rightarrow> bool" where
  "truthy JUndefined = False"
| "truthy JNull = False"
| "truthy (JBool b) = b"
| "truthy (JNum n) = (n \<noteq> 0)"
| "truthy (JStr s) = (s \<noteq> [])"
| "truthy (JRef a) = True"

text \<open>\<^verbatim>\<open>o.k\<close> for an object \<open>o\<close>: a missing property reads as \<^verbatim>\<open>undefined\<close>.\<close>

definition get :: "object \<Rightarrow> string \<Rightarrow> jsval" where
  "get obj k = (case obj k of Some v \<Rightarrow> v | None \<Rightarrow> JUndefined)"

text \<open>
  \<^verbatim>\<open>v?.k\<close> as the compiler spells it (\<^verbatim>\<open>v === null || v === void 0 ? void 0 : v.k\<close>),
  for the property names the file reads this way (\<^verbatim>\<open>name\<close>, \<^verbatim>\<open>creds\<close>,
  \<^verbatim>\<open>routingInfo\<close>): no primitive value has such a property.
\<close>

definition opt_chain :: "(nat \<Rightarrow> object) \<Rightarrow> jsval \<Rightarrow> string \<Rightarrow> jsval" where
  "opt_chain h v k = (case v of JRef a \<Rightarrow> get (h a) k | _ \<Rightarrow> JUndefined)"

text \<open>
  What reaches \<^verbatim>\<open>onUnexpectedError\<close> or a \<^verbatim>\<open>catch\<close> as the error: nothing
  (\<^verbatim>\<open>undefined\<close> or \<^verbatim>\<open>null\<close>), a string that was thrown, or an object such as an
  \<^verbatim>\<open>Error\<close> or a \<^verbatim>\<open>Boom\<close> with its \<^verbatim>\<open>stack\<close>, its \<^verbatim>\<open>message\<close> and the text
  that \<^verbatim>\<open>String(err)\<close> gives.
\<close>

record js_error =
  stack :: "string option"
  message :: "string option"
  toString :: string

datatype thrown = Nothing | Text string | Error js_error

text \<open>Exceptions the file itself raises, and values raised by collaborators.\<close>

datatype status =
    DisconnectReason_loggedOut
  | DisconnectReason_connectionClosed
  | DisconnectReason_timedOut
  | CodeFromWSError thrown

datatype exn = Boom string status | TypeError | Raised thrown

datatype 'a promise = Resolved 'a | Rejected exn | Pending

subsection \<open>Collaborators and effects\<close>

record url =
  scheme :: string
  remainder :: string
  searchParams :: "(string \<times> string) list"

text \<open>
  The \<^verbatim>\<open>protocol\<close> getter of a \<^verbatim>\<open>URL\<close> object returns the scheme followed by a colon
  (line 24 compares it with \<^verbatim>\<open>'tcp:'\<close>).
\<close>

definition protocol :: "url \<Rightarrow> string" where
  "protocol u = scheme u @ '':''"

datatype url_arg = UrlString string | UrlObject url

datatype content = NoContent | Data buffer | Children "node list"
  and node = Node (tag: string) (attrs: "(string \<times> jsval) list") (content: content)

datatype level = LvError | LvWarn | LvInfo | LvDebug | LvTrace

datatype logval = LThrown thrown | LNum int | LVal jsval | LText string | LStackOf exn

datatype effect =
    NewWebSocketClient url
  | Ws_connect
  | Ws_send buffer
  | Log level "(string \<times> logval) list" "string option"
  | UploadPreKeysToServerIfRequired bool
  | SetTimeout int
  | Ev_buffer
  | Ev_flush
  | Ev_emit string "(string \<times> jsval) list"

text \<open>
  What the transport does with a frame handed to \<^verbatim>\<open>ws.send\<close>: it calls back without
  an error, calls back with one, or does not call back.
\<close>

datatype send_outcome = Send_ok | Send_error thrown | Send_silent

text \<open>
  What a call of \<^verbatim>\<open>uploadPreKeysToServerIfRequired\<close> does: its promise resolves, its
  promise rejects, or the call itself throws.
\<close>

datatype upload_outcome = Upload_resolves | Upload_rejects thrown | Upload_throws thrown

text \<open>
  The functions of other modules that the code calls, as parameters:
  \<^verbatim>\<open>new URL(s)\<close> (\<open>None\<close> when it throws), \<^verbatim>\<open>v.toString('base64url')\<close>,
  \<^verbatim>\<open>generateMdTagPrefix()\<close>, \<^verbatim>\<open>noise.encodeFrame\<close>, \<^verbatim>\<open>encodeBinaryNode\<close>,
  \<^verbatim>\<open>binaryNodeToString\<close>, \<^verbatim>\<open>getBinaryNodeChild\<close> (\<open>None\<close> when it returns
  undefined), the transport's answer to \<^verbatim>\<open>ws.send\<close>, the outcome of the prekey
  upload, and the text of \<^verbatim>\<open>`${+v}`\<close>.
\<close>

record env =
  URL_new :: "string \<Rightarrow> url option"
  toString_base64url :: "jsval \<Rightarrow> string"
  generateMdTagPrefix :: string
  encodeFrame :: "buffer \<Rightarrow> buffer"
  encodeBinaryNode :: "node \<Rightarrow> buffer"
  binaryNodeToString :: "node \<Rightarrow> string"
  getBinaryNodeChild :: "node \<Rightarrow> string \<Rightarrow> node option"
  ws_send :: "buffer \<Rightarrow> send_outcome"
  uploadPreKeys_outcome :: upload_outcome
  number_text :: "jsval \<Rightarrow> string"

record config =
  waWebSocketUrl :: url_arg
  mobile :: bool
  auth :: "nat option"
  backoffDelayMs :: "int option"
  logger_level :: string

subsection \<open>The state of one connection handle\<close>

text \<open>
  The variables of \<^verbatim>\<open>makeSocket\<close> that the closures read or write:
  \<^verbatim>\<open>uqTagId\<close> (constant per handle), \<^verbatim>\<open>epoch\<close> (starts at 1), the transport's
  \<^verbatim>\<open>isOpen\<close> flag, \<^verbatim>\<open>didStartBuffer\<close>, the timers handed to \<^verbatim>\<open>setTimeout\<close>
  that have not fired yet (each with the delay it was given), the store of objects, the
  address of the \<^verbatim>\<open>authState\<close> object and the value of the constant \<^verbatim>\<open>creds\<close>.
\<close>

record sock =
  uqTagId :: string
  epoch :: nat
  isOpen :: bool
  didStartBuffer :: bool
  timers :: "int list"
  heap :: "nat \<Rightarrow> object"
  authState :: nat
  creds :: jsval

subsection \<open>makeSocket: validation, connection, initial state\<close>

text \<open>
  Lines 23 to 31 and the initialisations of lines 42 to 51. The result carries the
  effects on the transport in order; \<^verbatim>\<open>const { creds } = authState\<close> throws when
  \<^verbatim>\<open>authState\<close> is undefined, after the connection was started.
\<close>

definition resolve_url :: "env \<Rightarrow> url_arg \<Rightarrow> url option" where
  "resolve_url e a = (case a of UrlString s \<Rightarrow> URL_new e s | UrlObject u \<Rightarrow> Some u)"

definition routingInfo_of :: "(nat \<Rightarrow> object) \<Rightarrow> config \<Rightarrow> jsval" where
  "routingInfo_of h cfg =
     (case auth cfg of
        None \<Rightarrow> JUndefined
      | Some a \<Rightarrow> opt_chain h (get (h a) ''creds'') ''routingInfo'')"

definition makeSocket :: "env \<Rightarrow> (nat \<Rightarrow> object) \<Rightarrow> config \<Rightarrow> (exn + sock) \<times> effect list" where
  "makeSocket e h cfg =
     (case resolve_url e (waWebSocketUrl cfg) of
        None \<Rightarrow> (Inl TypeError, [])
      | Some u \<Rightarrow>
          if mobile cfg \<or> protocol u = ''tcp:''
          then (Inl (Boom ''Mobile API is not supported anymore'' DisconnectReason_loggedOut), [])
          else
            let u' = (if protocol u = ''wss'' \<and> truthy (routingInfo_of h cfg)
                      then u\<lparr>searchParams := searchParams u
                                @ [(''ED'', toString_base64url e (routingInfo_of h cfg))]\<rparr>
                      else u);
                started = [NewWebSocketClient u', Ws_connect]
            in (case auth cfg of
                  None \<Rightarrow> (Inl TypeError, started)
                | Some a \<Rightarrow>
                    (Inr \<lparr>uqTagId = generateMdTagPrefix e, epoch = 1, isOpen = False,
                          didStartBuffer = False, timers = [], heap = h, authState = a,
                          creds = get (h a) ''creds''\<rparr>,
                     started)))"

subsection \<open>generateMessageTag\<close>

text \<open>\<^verbatim>\<open>const generateMessageTag = () => `${uqTagId}${epoch++}`\<close>\<close>

definition generateMessageTag :: "sock \<Rightarrow> string \<times> sock" where
  "generateMessageTag s =
     (uqTagId s @ number_toString (epoch s), s\<lparr>epoch := js_incr (epoch s)\<rparr>)"

text \<open>\<open>n\<close> successive calls, the tags in the order returned.\<close>

fun successive_tags :: "sock \<Rightarrow> nat \<Rightarrow> string list" where
  "successive_tags s 0 = []"
| "successive_tags s (Suc n) =
     (case generateMessageTag s of (t, s') \<Rightarrow> t # successive_tags s' n)"

subsection \<open>sendRawMessage and sendNode\<close>

text \<open>
  Modelled from the spec: \<^verbatim>\<open>promiseTimeout\<close> (Utils) is not in the file. By section 4.3
  a wait that is not completed within its deadline fails with a timeout; a wait that
  was completed keeps its outcome.
\<close>

definition promiseTimeout :: "'a promise \<Rightarrow> 'a promise" where
  "promiseTimeout p =
     (case p of Pending \<Rightarrow> Rejected (Boom ''Timed Out'' DisconnectReason_timedOut) | _ \<Rightarrow> p)"

text \<open>
  \<^verbatim>\<open>promisify(ws.send)\<close>: the promise rejects with the error the callback was given
  when that error is truthy, and resolves when the callback was given none.
\<close>

fun truthy_thrown :: "thrown \<Rightarrow> bool" where
  "truthy_thrown Nothing = False"
| "truthy_thrown (Text t) = (t \<noteq> [])"
| "truthy_thrown (Error e) = True"

definition sendPromise :: "env \<Rightarrow> buffer \<Rightarrow> unit promise" where
  "sendPromise e bytes =
     (case ws_send e bytes of
        Send_ok \<Rightarrow> Resolved ()
      | Send_error err \<Rightarrow> if truthy_thrown err then Rejected (Raised err) else Resolved ()
      | Send_silent \<Rightarrow> Pending)"

text \<open>
  Lines 55 to 69. The result is the outcome of the promise the function returns, with
  the effects of the call. No variable other than \<^verbatim>\<open>ws.isOpen\<close> is read.
\<close>

definition sendRawMessage :: "env \<Rightarrow> sock \<Rightarrow> buffer \<Rightarrow> unit promise \<times> effect list" where
  "sendRawMessage e s data =
     (if \<not> isOpen s
      then (Rejected (Boom ''Connection Closed'' DisconnectReason_connectionClosed), [])
      else let bytes = encodeFrame e data
           in (promiseTimeout (sendPromise e bytes), [Ws_send bytes]))"

text \<open>Lines 71 to 77.\<close>

definition sendNode :: "env \<Rightarrow> config \<Rightarrow> sock \<Rightarrow> node \<Rightarrow> unit promise \<times> effect list" where
  "sendNode e cfg s frame =
     (let traced = (if logger_level cfg = ''trace''
                    then [Log LvTrace [(''xml'', LText (binaryNodeToString e frame)),
                                       (''msg'', LText ''xml send'')] None]
                    else []);
          buff = encodeBinaryNode e frame
      in case sendRawMessage e s buff of (p, sent) \<Rightarrow> (p, traced @ sent))"

subsection \<open>onUnexpectedError\<close>

text \<open>
  Line 81: \<^verbatim>\<open>(err && ((err.stack || err.message) || String(err))).toLowerCase()\<close>.
  When \<^verbatim>\<open>err\<close> is undefined or null the parenthesis is \<^verbatim>\<open>err\<close> itself and the
  method call throws a \<^verbatim>\<open>TypeError\<close>. A thrown string has neither \<^verbatim>\<open>stack\<close> nor
  \<^verbatim>\<open>message\<close>, and \<^verbatim>\<open>String\<close> returns it. An empty string counts as false
  for \<^verbatim>\<open>||\<close>. The values of \<open>thrown\<close> have strings for \<^verbatim>\<open>stack\<close> and
  \<^verbatim>\<open>message\<close>; the other values on which the method call throws as well
  (\<^verbatim>\<open>false\<close>, \<^verbatim>\<open>0\<close>, an object whose \<^verbatim>\<open>stack\<close> or \<^verbatim>\<open>message\<close> is a truthy
  non-string) have no counterpart among them.
\<close>

definition or_else :: "string option \<Rightarrow> string \<Rightarrow> string" where
  "or_else a b = (case a of Some t \<Rightarrow> (if t \<noteq> [] then t else b) | None \<Rightarrow> b)"

definition error_message :: "thrown \<Rightarrow> exn + string" where
  "error_message err =
     (case err of
        Nothing \<Rightarrow> Inl TypeError
      | Text t \<Rightarrow> Inr (toLowerCase t)
      | Error x \<Rightarrow> Inr (toLowerCase (or_else (stack x) (or_else (message x) (toString x)))))"

definition is_bad_mac :: "string \<Rightarrow> bool" where
  "is_bad_mac m =
     (str_includes m ''bad mac'' \<or> (str_includes m ''mac'' \<and> str_includes m ''invalid''))"

definition is_rate_limit :: "string \<Rightarrow> bool" where
  "is_rate_limit m = (str_includes m ''429'' \<or> str_includes m ''rate limit'')"

text \<open>
  Line 94: \<^verbatim>\<open>Math.min(30000, (config.backoffDelayMs || 5000))\<close>; \<^verbatim>\<open>||\<close> takes its
  right operand when the left one is undefined or zero.
\<close>

definition backoff_wait :: "config \<Rightarrow> int" where
  "backoff_wait cfg =
     min 30000 (case backoffDelayMs cfg of
                  None \<Rightarrow> 5000
                | Some d \<Rightarrow> if d \<noteq> 0 then d else 5000)"

text \<open>
  What one call does: how it ends, the state it leaves, the effects it performs before
  it returns, and the effects that follow later from promises it started (the
  \<^verbatim>\<open>.catch\<close> of line 86).
\<close>

record reaction =
  ended :: "exn + unit"
  left :: sock
  performed :: "effect list"
  deferred :: "effect list"

text \<open>Lines 84 to 90.\<close>

definition reupload :: "env \<Rightarrow> effect list \<times> effect list" where
  "reupload e =
     ([UploadPreKeysToServerIfRequired True],
      case uploadPreKeys_outcome e of
        Upload_resolves \<Rightarrow> []
      | Upload_rejects x \<Rightarrow>
          [Log LvWarn [(''e'', LThrown x)] (Some ''failed to re-upload prekeys after bad mac'')]
      | Upload_throws x \<Rightarrow> [])"

definition onUnexpectedError :: "env \<Rightarrow> config \<Rightarrow> sock \<Rightarrow> thrown \<Rightarrow> string \<Rightarrow> reaction" where
  "onUnexpectedError e cfg s err msg =
     (let logged = [Log LvError [(''err'', LThrown err)]
                      (Some (''unexpected error in '' @ [CHR 0x27] @ msg @ [CHR 0x27]))]
      in case error_message err of
           Inl x \<Rightarrow> \<lparr>ended = Inl x, left = s, performed = logged, deferred = []\<rparr>
         | Inr m \<Rightarrow>
             let up = (if is_bad_mac m then reupload e else ([], []));
                 wait = backoff_wait cfg;
                 backoff = (if is_rate_limit m
                            then [Log LvInfo [(''wait'', LNum wait)]
                                    (Some ''backing off due to rate limit''),
                                  SetTimeout wait]
                            else [])
             in \<lparr>ended = Inr (),
                 left = (if is_rate_limit m then s\<lparr>timers := timers s @ [wait]\<rparr> else s),
                 performed = logged @ fst up @ backoff,
                 deferred = snd up\<rparr>)"

subsection \<open>awaitNextMessage\<close>

text \<open>
  Lines 102 to 121; the listing of the function stops after the \<^verbatim>\<open>.finally\<close> block,
  and the promise spoken of is \<^verbatim>\<open>result\<close>. The transport keeps its listeners in a list:
  \<^verbatim>\<open>on\<close> appends, \<^verbatim>\<open>off\<close> removes the most recently added entry that matches.
  \<^verbatim>\<open>onOpen\<close> and \<^verbatim>\<open>onClose\<close> are closures of this call; any other listener of the
  transport is a \<open>Foreign\<close> one.
\<close>

datatype listener = OnOpen | OnClose | Foreign nat

text \<open>Line 192: the error a transport event is mapped to before the wait is rejected.\<close>

definition thrown_message :: "thrown \<Rightarrow> string" where
  "thrown_message err =
     (case err of
        Nothing \<Rightarrow> ''undefined''
      | Text t \<Rightarrow> ''undefined''
      | Error x \<Rightarrow> (case message x of Some m \<Rightarrow> m | None \<Rightarrow> ''undefined''))"

definition mapWebSocketError :: "thrown \<Rightarrow> exn" where
  "mapWebSocketError err =
     Boom (''WebSocket Error ('' @ thrown_message err @ '')'') (CodeFromWSError err)"

record wait =
  listeners :: "(string \<times> listener) list"
  result :: "buffer promise"
  finalized :: bool

definition ws_on :: "string \<Rightarrow> listener \<Rightarrow> (string \<times> listener) list \<Rightarrow> (string \<times> listener) list" where
  "ws_on ev l ls = ls @ [(ev, l)]"

definition ws_off :: "string \<Rightarrow> listener \<Rightarrow> (string \<times> listener) list \<Rightarrow> (string \<times> listener) list" where
  "ws_off ev l ls = rev (remove1 (ev, l) (rev ls))"

text \<open>
  The call itself: the check of \<^verbatim>\<open>ws.isOpen\<close>, then the executor, which runs at once.
  The listeners attached before the call are all foreign to it.
\<close>

definition awaitNextMessage :: "sock \<Rightarrow> (string \<times> nat) list \<Rightarrow> exn + wait" where
  "awaitNextMessage s attached =
     (if \<not> isOpen s
      then Inl (Boom ''Connection Closed'' DisconnectReason_connectionClosed)
      else Inr \<lparr>listeners =
                   ws_on ''error'' OnClose
                     (ws_on ''close'' OnClose
                        (ws_on ''frame'' OnOpen (map (\<lambda>(ev, n). (ev, Foreign n)) attached))),
                 result = Pending,
                 finalized = False\<rparr>)"

text \<open>
  What happens next, one event at a time: the transport emits \<^verbatim>\<open>frame\<close>,
  \<^verbatim>\<open>close\<close> or \<^verbatim>\<open>error\<close>, the timer of \<^verbatim>\<open>promiseTimeout\<close> fires, or the
  pending promise reactions run (the \<^verbatim>\<open>.finally\<close> callback, once, after the promise
  was settled). Settling a settled promise does nothing.
\<close>

datatype event = Emit_frame buffer | Emit_close thrown | Emit_error thrown | Timer_fires | Reactions_run

definition settle :: "buffer promise \<Rightarrow> wait \<Rightarrow> wait" where
  "settle p w = (if result w = Pending then w\<lparr>result := p\<rparr> else w)"

fun step :: "wait \<Rightarrow> event \<Rightarrow> wait" where
  "step w (Emit_frame f) =
     (if (''frame'', OnOpen) \<in> set (listeners w) then settle (Resolved f) w else w)"
| "step w (Emit_close err) =
     (if (''close'', OnClose) \<in> set (listeners w)
      then settle (Rejected (mapWebSocketError err)) w else w)"
| "step w (Emit_error err) =
     (if (''error'', OnClose) \<in> set (listeners w)
      then settle (Rejected (mapWebSocketError err)) w else w)"
| "step w Timer_fires = settle (promiseTimeout Pending) w"
| "step w Reactions_run =
     (if result w \<noteq> Pending \<and> \<not> finalized w
      then w\<lparr>listeners :=
                ws_off ''error'' OnClose
                  (ws_off ''close'' OnClose (ws_off ''frame'' OnOpen (listeners w))),
              finalized := True\<rparr>
      else w)"

definition run :: "wait \<Rightarrow> event list \<Rightarrow> wait" where
  "run w evs = foldl step w evs"

text \<open>
  The outcome an event gives to a wait that is pending (\<open>Pending\<close> when the event
  cannot settle it), and the outcome of the first event of a sequence that can settle.
\<close>

fun outcome :: "event \<Rightarrow> buffer promise" where
  "outcome (Emit_frame f) = Resolved f"
| "outcome (Emit_close err) = Rejected (mapWebSocketError err)"
| "outcome (Emit_error err) = Rejected (mapWebSocketError err)"
| "outcome Timer_fires = Rejected (Boom ''Timed Out'' DisconnectReason_timedOut)"
| "outcome Reactions_run = Pending"

fun first_outcome :: "event list \<Rightarrow> buffer promise" where
  "first_outcome [] = Pending"
| "first_outcome (ev # evs) = (if outcome ev = Pending then first_outcome evs else outcome ev)"

text \<open>
  For the proofs: the listener list while the three listeners of the call are attached
  behind the foreign ones, and the two shapes a wait can have, with its listeners
  attached or with the \<^verbatim>\<open>.finally\<close> callback done and the listeners removed.
\<close>

definition waiting :: "(string \<times> listener) list \<Rightarrow> (string \<times> listener) list" where
  "waiting base = base @ [(''frame'', OnOpen), (''close'', OnClose), (''error'', OnClose)]"

definition attached_or_removed :: "(string \<times> listener) list \<Rightarrow> wait \<Rightarrow> bool" where
  "attached_or_removed base w \<longleftrightarrow>
     (\<not> finalized w \<and> listeners w = waiting base)
     \<or> (finalized w \<and> result w \<noteq> Pending \<and> listeners w = base)"

subsection \<open>Start of buffering and the end of the offline notifications\<close>

text \<open>
  Lines 122 to 128: \<open>guard\<close> is the condition of the \<^verbatim>\<open>if\<close> that encloses
  \<^verbatim>\<open>ev.buffer()\<close> and \<^verbatim>\<open>didStartBuffer = true\<close>.
\<close>

definition start_buffer :: "bool \<Rightarrow> sock \<Rightarrow> sock \<times> effect list" where
  "start_buffer guard s =
     (let connecting = Ev_emit ''connection.update''
                         [(''connection'', JStr ''connecting''),
                          (''receivedPendingNotifications'', JBool False),
                          (''qr'', JUndefined)]
      in if guard then (s\<lparr>didStartBuffer := True\<rparr>, [Ev_buffer, connecting])
         else (s, [connecting]))"

text \<open>\<^verbatim>\<open>n.attrs.k\<close>: an attribute that is not there reads as \<^verbatim>\<open>undefined\<close>.\<close>

definition attr :: "node \<Rightarrow> string \<Rightarrow> jsval" where
  "attr n k = (case map_of (attrs n) k of Some v \<Rightarrow> v | None \<Rightarrow> JUndefined)"

text \<open>Lines 131 to 140, the listener of \<^verbatim>\<open>CB:ib,,offline\<close>.\<close>

definition on_offline :: "env \<Rightarrow> sock \<Rightarrow> node \<Rightarrow> effect list" where
  "on_offline e s n =
     (let count = (case getBinaryNodeChild e n ''offline'' of
                     None \<Rightarrow> JUndefined
                   | Some child \<Rightarrow> attr child ''count'');
          offlineNotifs = number_text e (if truthy count then count else JNum 0)
      in [Log LvInfo [] (Some (''handled '' @ offlineNotifs @ '' offline messages/notifications''))]
         @ (if didStartBuffer s
            then [Ev_flush, Log LvTrace [] (Some ''flushed events for initial buffer'')]
            else [])
         @ [Ev_emit ''connection.update'' [(''receivedPendingNotifications'', JBool True)]])"

subsection \<open>The listener of creds.update and the user accessor\<close>

text \<open>
  Lines 142 to 157. \<^verbatim>\<open>creds.me\<close> throws when \<^verbatim>\<open>creds\<close> is undefined or null.
  \<^verbatim>\<open>Object.assign(creds, update)\<close> writes every property of the update into the object
  that \<^verbatim>\<open>creds\<close> refers to; on a primitive it has no lasting effect. The warning of
  line 153 is logged later, when the promise of \<^verbatim>\<open>sendNode\<close> has been rejected.
\<close>

definition presence :: "jsval \<Rightarrow> node" where
  "presence name = Node ''presence'' [(''name'', name)] NoContent"

definition on_creds_update :: "env \<Rightarrow> config \<Rightarrow> sock \<Rightarrow> object \<Rightarrow> reaction" where
  "on_creds_update e cfg s update =
     (let name = opt_chain (heap s) (get update ''me'') ''name''
      in case creds s of
           JUndefined \<Rightarrow> \<lparr>ended = Inl TypeError, left = s, performed = [], deferred = []\<rparr>
         | JNull \<Rightarrow> \<lparr>ended = Inl TypeError, left = s, performed = [], deferred = []\<rparr>
         | c \<Rightarrow>
             let me = (case c of JRef a \<Rightarrow> get (heap s a) ''me'' | _ \<Rightarrow> JUndefined);
                 changed = (opt_chain (heap s) me ''name'' \<noteq> name);
                 sent = sendNode e cfg s (presence name)
             in \<lparr>ended = Inr (),
                 left = (case c of
                           JRef a \<Rightarrow> s\<lparr>heap := (heap s)(a := heap s a ++ update)\<rparr>
                         | _ \<Rightarrow> s),
                 performed = (if changed
                              then Log LvDebug [(''name'', LVal name)] (Some ''updated pushName'')
                                   # snd sent
                              else []),
                 deferred = (if changed
                             then (case fst sent of
                                     Rejected x \<Rightarrow>
                                       [Log LvWarn [(''trace'', LStackOf x)]
                                          (Some ''error in sending presence update on name change'')]
                                   | _ \<Rightarrow> [])
                             else [])\<rparr>)"

text \<open>Lines 167 to 169: \<^verbatim>\<open>get user() { return authState.creds.me }\<close>.\<close>

definition user :: "sock \<Rightarrow> exn + jsval" where
  "user s =
     (case get (heap s (authState s)) ''creds'' of
        JUndefined \<Rightarrow> Inl TypeError
      | JNull \<Rightarrow> Inl TypeError
      | JRef a \<Rightarrow> Inr (get (heap s a) ''me'')
      | _ \<Rightarrow> Inr JUndefined)"

subsection \<open>Example inputs\<close>

text \<open>
  A stand-in for \<^verbatim>\<open>new URL(s)\<close>, good for strings of the shape \<^verbatim>\<open>scheme:rest\<close>
  without a query: a string without a colon has no scheme and is refused, as
  \<^verbatim>\<open>new URL\<close> refuses it.
\<close>

definition example_URL_new :: "string \<Rightarrow> url option" where
  "example_URL_new s =
     (if CHR '':'' \<in> set s
      then Some \<lparr>scheme = takeWhile (\<lambda>c. c \<noteq> CHR '':'') s,
                 remainder = tl (dropWhile (\<lambda>c. c \<noteq> CHR '':'') s),
                 searchParams = []\<rparr>
      else None)"

text \<open>
  A stand-in for \<^verbatim>\<open>encodeBinaryNode\<close> that shows what it was given: the bytes of the
  tag, then of \<^verbatim>\<open> key=value\<close> for every attribute whose value is a string.
\<close>

definition example_encodeBinaryNode :: "node \<Rightarrow> buffer" where
  "example_encodeBinaryNode n =
     map of_char
       (tag n @ concat (map (\<lambda>(k, v). case v of JStr t \<Rightarrow> '' '' @ k @ ''='' @ t | _ \<Rightarrow> [])
                          (attrs n)))"

definition example_env :: env where
  "example_env =
     \<lparr>URL_new = example_URL_new,
      toString_base64url = (\<lambda>v. ''AQID''),
      generateMdTagPrefix = ''3EB0.'',
      encodeFrame = (\<lambda>b. b),
      encodeBinaryNode = example_encodeBinaryNode,
      binaryNodeToString = (\<lambda>n. ''<presence/>''),
      getBinaryNodeChild =
        (\<lambda>n t. case content n of Children cs \<Rightarrow> find (\<lambda>c. tag c = t) cs | _ \<Rightarrow> None),
      ws_send = (\<lambda>b. Send_ok),
      uploadPreKeys_outcome = Upload_rejects (Text ''not connected''),
      number_text = (\<lambda>v. ''0'')\<rparr>"

text \<open>
  A store with the \<^verbatim>\<open>authState\<close> object at 0, the credentials at 1, the contact
  \<^verbatim>\<open>me\<close> at 2, the routing info at 3 and a second contact at 4.
\<close>

definition example_heap :: "nat \<Rightarrow> object" where
  "example_heap =
     (\<lambda>a. Map.empty)
       (0 := [''creds'' \<mapsto> JRef 1],
        1 := [''me'' \<mapsto> JRef 2, ''routingInfo'' \<mapsto> JRef 3, ''registered'' \<mapsto> JBool True],
        2 := [''id'' \<mapsto> JStr ''1@s.whatsapp.net'', ''name'' \<mapsto> JStr ''Ann''],
        4 := [''id'' \<mapsto> JStr ''1@s.whatsapp.net'', ''name'' \<mapsto> JStr ''Bob''])"

definition example_url :: url where
  "example_url = \<lparr>scheme = ''wss'', remainder = ''//web.whatsapp.com/ws/chat'', searchParams = []\<rparr>"

definition example_config :: config where
  "example_config =
     \<lparr>waWebSocketUrl = UrlObject example_url, mobile = False, auth = Some 0,
      backoffDelayMs = None, logger_level = ''info''\<rparr>"

definition example_sock :: sock where
  "example_sock =
     \<lparr>uqTagId = ''3EB0.'', epoch = 1, isOpen = True, didStartBuffer = False, timers = [],
      heap = example_heap, authState = 0, creds = JRef 1\<rparr>"

section \<open>Properties\<close>

subsection \<open>Decimal numerals\<close>

lemma of_char_digit: "d < 10 \<Longrightarrow> of_char (digit d) = (48 + d :: nat)"
proof -
  assume "d < 10"
  then have "d \<in> {0, 1, 2, 3, 4, 5, 6, 7, 8, 9}" by auto
  then show ?thesis by (auto simp add: digit_def)
qed

lemma parse_decimal_snoc:
  "parse_decimal (s @ [c]) = 10 * parse_decimal s + (of_char c - 48)"
  by (simp add: parse_decimal_def)

lemma parse_number_toString: "parse_decimal (number_toString n) = n"
proof (induction n rule: number_toString.induct)
  case (1 n)
  show ?case
  proof (cases "n < 10")
    case True
    then show ?thesis
      by (simp add: number_toString.simps [of n] parse_decimal_def of_char_digit)
  next
    case False
    with 1 have "parse_decimal (number_toString (n div 10)) = n div 10" by simp
    with False show ?thesis
      by (simp add: number_toString.simps [of n] parse_decimal_snoc of_char_digit)
  qed
qed

lemma number_toString_inj: "number_toString a = number_toString b \<Longrightarrow> a = b"
  by (metis parse_number_toString)


subsection \<open>Message tags\<close>

lemma js_incr_small: "x < 9007199254740992 \<Longrightarrow> js_incr x = x + 1"
  by (simp add: js_incr_def)

lemma js_incr_limit: "js_incr 9007199254740992 = 9007199254740992"
  by (simp add: js_incr_def)

lemma js_incr_funpow: "(js_incr ^^ k) 1 = min (k + 1) 9007199254740992"
proof (induction k)
  case 0
  show ?case by simp
next
  case (Suc k)
  show ?case
  proof (cases "k + 1 < 9007199254740992")
    case True
    with Suc show ?thesis by (simp add: js_incr_small)
  next
    case False
    with Suc show ?thesis by (simp add: js_incr_limit)
  qed
qed

lemma length_successive_tags: "length (successive_tags s n) = n"
  by (induction n arbitrary: s) (simp_all add: generateMessageTag_def)

lemma nth_successive_tags:
  "i < n \<Longrightarrow> successive_tags s n ! i = uqTagId s @ number_toString ((js_incr ^^ i) (epoch s))"
proof (induction n arbitrary: s i)
  case 0
  then show ?case by simp
next
  case (Suc n)
  show ?case
  proof (cases i)
    case 0
    then show ?thesis by (simp add: generateMessageTag_def)
  next
    case (Suc j)
    with Suc.prems have "j < n" by simp
    from Suc.IH [OF this, of "snd (generateMessageTag s)"] Suc
    show ?thesis by (simp add: generateMessageTag_def funpow_swap1)
  qed
qed

lemma successive_tags_explicit:
  assumes "epoch s = 1" and "n \<le> 9007199254740992"
  shows "successive_tags s n = map (\<lambda>k. uqTagId s @ number_toString k) [1..<Suc n]"
proof (rule nth_equalityI)
  show "length (successive_tags s n) = length (map (\<lambda>k. uqTagId s @ number_toString k) [1..<Suc n])"
    by (simp add: length_successive_tags)
next
  fix i assume "i < length (successive_tags s n)"
  then have i: "i < n" by (simp add: length_successive_tags)
  with assms(2) have "min (i + 1) 9007199254740992 = i + 1" by simp
  with i assms(1) have "successive_tags s n ! i = uqTagId s @ number_toString (i + 1)"
    by (simp add: nth_successive_tags js_incr_funpow del: One_nat_def)
  moreover from i have "map (\<lambda>k. uqTagId s @ number_toString k) [1..<Suc n] ! i
      = uqTagId s @ number_toString (i + 1)"
    by (simp del: upt_Suc)
  ultimately show "successive_tags s n ! i = map (\<lambda>k. uqTagId s @ number_toString k) [1..<Suc n] ! i"
    by simp
qed

text \<open>
  C1, as amended. On a handle whose counter is at its initial value 1, the first \<open>n\<close>
  calls of \<^verbatim>\<open>generateMessageTag\<close>, for every \<open>n\<close> up to \<open>2^53 = 9007199254740992\<close>,
  return the prefix followed by the decimal numerals of 1, 2, ..., \<open>n\<close> in this order:
  the tags are pairwise distinct and the numeric values of their suffixes increase by
  one per call.
\<close>

theorem generateMessageTag_distinct_increasing:
  assumes "epoch s = 1" and "n \<le> 9007199254740992"
  shows "successive_tags s n = map (\<lambda>k. uqTagId s @ number_toString k) [1..<Suc n]
       \<and> distinct (successive_tags s n)
       \<and> map (\<lambda>t. parse_decimal (drop (length (uqTagId s)) t)) (successive_tags s n) = [1..<Suc n]"
proof -
  have e: "successive_tags s n = map (\<lambda>k. uqTagId s @ number_toString k) [1..<Suc n]"
    using assms by (rule successive_tags_explicit)
  have "inj_on (\<lambda>k. uqTagId s @ number_toString k) (set [1..<Suc n])"
    by (rule inj_onI) (simp add: number_toString_inj)
  then have d: "distinct (successive_tags s n)"
    unfolding e by (simp add: distinct_map)
  have p: "map (\<lambda>t. parse_decimal (drop (length (uqTagId s)) t)) (successive_tags s n) = [1..<Suc n]"
    unfolding e by (simp add: o_def parse_number_toString)
  from e d p show ?thesis by simp
qed

theorem generateMessageTag_distinct_increasing_witness:
  "epoch example_sock = 1 \<and> (3::nat) \<le> 9007199254740992
   \<and> successive_tags example_sock 3 = [''3EB0.1'', ''3EB0.2'', ''3EB0.3'']
   \<and> distinct (successive_tags example_sock 3)"
  using generateMessageTag_distinct_increasing [of example_sock 3]
  by (simp add: example_sock_def upt_rec number_toString.simps digit_def)

text \<open>
  C1 as stated fails once the counter has reached \<open>2^53\<close>: \<open>2^53 + 1\<close> is not a double
  and \<^verbatim>\<open>epoch++\<close> leaves the counter where it is. Among the first \<open>2^53 + 1\<close> tags of a
  handle the last two are equal.
\<close>

theorem generateMessageTag_repeats_counterexample:
  "\<not> distinct (successive_tags example_sock 9007199254740993)"
proof -
  let ?ts = "successive_tags example_sock 9007199254740993"
  have a: "?ts ! 9007199254740991 = ''3EB0.'' @ number_toString 9007199254740992"
    by (simp add: nth_successive_tags js_incr_funpow example_sock_def del: One_nat_def)
  have b: "?ts ! 9007199254740992 = ''3EB0.'' @ number_toString 9007199254740992"
    by (simp add: nth_successive_tags js_incr_funpow example_sock_def del: One_nat_def)
  have "(9007199254740991::nat) < length ?ts" "(9007199254740992::nat) < length ?ts"
    by (simp_all add: length_successive_tags)
  with a b show ?thesis
    using nth_eq_iff_index_eq [of ?ts 9007199254740991 9007199254740992] by auto
qed

subsection \<open>Construction\<close>

lemma protocol_not_wss: "protocol u \<noteq> ''wss''"
proof
  assume "protocol u = ''wss''"
  then have "last (scheme u @ '':'') = last ''wss''" by (simp add: protocol_def)
  then show False by simp
qed

lemma makeSocket_initial:
  "makeSocket e h cfg = (Inr s, effs) \<Longrightarrow> epoch s = 1 \<and> timers s = [] \<and> \<not> didStartBuffer s"
  by (auto simp add: makeSocket_def Let_def split: option.splits if_splits)

lemma makeSocket_client_url:
  "snd (makeSocket e h cfg) = []
   \<or> (\<exists>u. resolve_url e (waWebSocketUrl cfg) = Some u
          \<and> snd (makeSocket e h cfg) = [NewWebSocketClient u, Ws_connect])"
  by (simp add: makeSocket_def protocol_not_wss Let_def split: option.splits)

text \<open>
  C2, as amended. For every configuration whose endpoint is a \<^verbatim>\<open>URL\<close> object or a
  string that \<^verbatim>\<open>new URL\<close> accepts, and whose scheme is \<^verbatim>\<open>tcp:\<close> or whose mobile flag
  is set, \<^verbatim>\<open>makeSocket\<close> throws the Boom error with status \<^verbatim>\<open>loggedOut\<close> and has
  neither created a transport client nor called \<^verbatim>\<open>connect\<close>. When the endpoint is a
  string that \<^verbatim>\<open>new URL\<close> refuses, the \<^verbatim>\<open>TypeError\<close> of line 23 is thrown instead,
  also before any client is created.
\<close>

theorem makeSocket_rejects_before_connect:
  "(resolve_url e (waWebSocketUrl cfg) = Some u \<and> (mobile cfg \<or> protocol u = ''tcp:'')
      \<longrightarrow> makeSocket e h cfg
          = (Inl (Boom ''Mobile API is not supported anymore'' DisconnectReason_loggedOut), []))
   \<and> (resolve_url e (waWebSocketUrl cfg) = None \<longrightarrow> makeSocket e h cfg = (Inl TypeError, []))"
  by (simp add: makeSocket_def)

theorem makeSocket_rejects_before_connect_witness:
  "resolve_url example_env (waWebSocketUrl (example_config\<lparr>waWebSocketUrl := UrlString ''tcp://g.whatsapp.net:443''\<rparr>))
     = Some \<lparr>scheme = ''tcp'', remainder = ''//g.whatsapp.net:443'', searchParams = []\<rparr>
   \<and> protocol \<lparr>scheme = ''tcp'', remainder = ''//g.whatsapp.net:443'', searchParams = []\<rparr> = ''tcp:''
   \<and> makeSocket example_env example_heap (example_config\<lparr>waWebSocketUrl := UrlString ''tcp://g.whatsapp.net:443''\<rparr>)
       = (Inl (Boom ''Mobile API is not supported anymore'' DisconnectReason_loggedOut), [])
   \<and> resolve_url example_env (waWebSocketUrl (example_config\<lparr>mobile := True\<rparr>)) = Some example_url
   \<and> mobile (example_config\<lparr>mobile := True\<rparr>)
   \<and> makeSocket example_env example_heap (example_config\<lparr>mobile := True\<rparr>)
       = (Inl (Boom ''Mobile API is not supported anymore'' DisconnectReason_loggedOut), [])
   \<and> resolve_url example_env (waWebSocketUrl (example_config\<lparr>waWebSocketUrl := UrlString ''web.whatsapp.com''\<rparr>))
       = None
   \<and> makeSocket example_env example_heap (example_config\<lparr>waWebSocketUrl := UrlString ''web.whatsapp.com''\<rparr>)
       = (Inl TypeError, [])"
  using makeSocket_rejects_before_connect
    [of example_env "example_config\<lparr>waWebSocketUrl := UrlString ''tcp://g.whatsapp.net:443''\<rparr>"
        "\<lparr>scheme = ''tcp'', remainder = ''//g.whatsapp.net:443'', searchParams = []\<rparr>" example_heap]
    makeSocket_rejects_before_connect
    [of example_env "example_config\<lparr>mobile := True\<rparr>" example_url example_heap]
    makeSocket_rejects_before_connect
    [of example_env "example_config\<lparr>waWebSocketUrl := UrlString ''web.whatsapp.com''\<rparr>" _ example_heap]
  by (simp add: resolve_url_def example_env_def example_URL_new_def example_config_def protocol_def)

text \<open>
  C2 as stated fails for a configuration with the mobile flag set and an endpoint string
  without a scheme: \<^verbatim>\<open>new URL('web.whatsapp.com')\<close> throws on line 23, before the
  flag is looked at, and the error is not the logged-out one.
\<close>

theorem makeSocket_mobile_bad_url_counterexample:
  "mobile (example_config\<lparr>waWebSocketUrl := UrlString ''web.whatsapp.com'', mobile := True\<rparr>)
   \<and> fst (makeSocket example_env example_heap
         (example_config\<lparr>waWebSocketUrl := UrlString ''web.whatsapp.com'', mobile := True\<rparr>))
       \<noteq> Inl (Boom ''Mobile API is not supported anymore'' DisconnectReason_loggedOut)"
  by (simp add: makeSocket_def resolve_url_def example_env_def example_URL_new_def example_config_def)

text \<open>
  C6, the code at the failing input. The endpoint has the scheme \<^verbatim>\<open>wss\<close> and the
  credentials hold routing info, yet the URL handed to the transport client is the
  endpoint with its query untouched: line 27 compares \<^verbatim>\<open>url.protocol\<close> with
  \<^verbatim>\<open>'wss'\<close>, and the protocol of a URL ends in a colon (\<open>protocol_not_wss\<close>), so the
  branch that appends \<^verbatim>\<open>ED\<close> is never taken (\<open>makeSocket_client_url\<close>).
\<close>

theorem makeSocket_wss_routingInfo_not_appended:
  "scheme example_url = ''wss''
   \<and> truthy (routingInfo_of example_heap example_config)
   \<and> searchParams example_url = []
   \<and> snd (makeSocket example_env example_heap example_config)
       = [NewWebSocketClient example_url, Ws_connect]"
  by (simp add: makeSocket_def resolve_url_def example_env_def example_config_def example_url_def
      example_heap_def routingInfo_of_def opt_chain_def get_def protocol_def Let_def)

subsection \<open>Unexpected errors and sending\<close>

lemma sendRawMessage_timers:
  "sendRawMessage e (s\<lparr>timers := t\<rparr>) d = sendRawMessage e s d"
  by (simp add: sendRawMessage_def)

lemma onUnexpectedError_isOpen:
  "isOpen (left (onUnexpectedError e cfg s err msg)) = isOpen s"
  by (simp add: onUnexpectedError_def Let_def split: sum.splits)

lemma sendRawMessage_after_onUnexpectedError:
  "sendRawMessage e (left (onUnexpectedError e' cfg s err msg)) d = sendRawMessage e s d"
  by (simp add: sendRawMessage_def onUnexpectedError_isOpen)

lemma text_429: "error_message (Text ''HTTP 429 Too Many Requests'') = Inr ''http 429 too many requests''"
  by (simp add: error_message_def toLowerCase_def toLowerCase_char_def)

lemma rate_429: "is_rate_limit ''http 429 too many requests''"
  by (simp add: is_rate_limit_def)

lemma not_mac_429: "\<not> is_bad_mac ''http 429 too many requests''"
  by (simp add: is_bad_mac_def)

text \<open>
  C3, as amended. For every error whose lowercased text (the stack, else the message,
  else the string form) contains \<^verbatim>\<open>429\<close> or \<^verbatim>\<open>rate limit\<close>, exactly one timer is
  scheduled, and its delay is the minimum of 30000 and the configured base value, where
  5000 stands in for a base value that is unset or zero. The delay never exceeds 30000.
\<close>

theorem onUnexpectedError_backoff:
  assumes "error_message err = Inr m" and "is_rate_limit m"
  shows "[w. SetTimeout w \<leftarrow> performed (onUnexpectedError e cfg s err msg)]
           = [min 30000 (case backoffDelayMs cfg of
                           None \<Rightarrow> 5000
                         | Some d \<Rightarrow> if d = 0 then 5000 else d)]
       \<and> (\<forall>w. SetTimeout w \<in> set (performed (onUnexpectedError e cfg s err msg)) \<longrightarrow> w \<le> 30000)"
  using assms
  by (auto simp add: onUnexpectedError_def Let_def backoff_wait_def reupload_def split: option.splits)

theorem onUnexpectedError_backoff_witness:
  "error_message (Text ''HTTP 429 Too Many Requests'') = Inr ''http 429 too many requests''
   \<and> is_rate_limit ''http 429 too many requests''
   \<and> [w. SetTimeout w \<leftarrow> performed (onUnexpectedError example_env
          (example_config\<lparr>backoffDelayMs := Some 60000\<rparr>) example_sock
          (Text ''HTTP 429 Too Many Requests'') ''send'')] = [30000]"
  using onUnexpectedError_backoff [OF text_429 rate_429, of example_env
      "example_config\<lparr>backoffDelayMs := Some 60000\<rparr>" example_sock "''send''"]
  by (simp add: text_429 rate_429 example_config_def)

text \<open>
  C3 as stated fails for a configured base value of zero: the claim gives the delay
  \<open>min 30000 0 = 0\<close>, the code schedules 5000, because \<^verbatim>\<open>0 || 5000\<close> is 5000.
\<close>

theorem onUnexpectedError_backoff_zero_counterexample:
  "backoffDelayMs (example_config\<lparr>backoffDelayMs := Some 0\<rparr>) = Some 0
   \<and> SetTimeout 5000 \<in> set (performed (onUnexpectedError example_env
          (example_config\<lparr>backoffDelayMs := Some 0\<rparr>) example_sock
          (Text ''HTTP 429 Too Many Requests'') ''send''))
   \<and> SetTimeout (min 30000 0) \<notin> set (performed (onUnexpectedError example_env
          (example_config\<lparr>backoffDelayMs := Some 0\<rparr>) example_sock
          (Text ''HTTP 429 Too Many Requests'') ''send''))"
  by (simp add: onUnexpectedError_def text_429 rate_429 not_mac_429 backoff_wait_def
      example_config_def Let_def)

text \<open>
  C4, the code at the failing input. A rate-limit error has just been processed and its
  timer of 5000 ms is pending; a send issued now is handed to the transport at once,
  exactly as it is on a handle that saw no such error. \<^verbatim>\<open>sendRawMessage\<close> reads
  nothing that \<^verbatim>\<open>onUnexpectedError\<close> writes
  (\<open>sendRawMessage_after_onUnexpectedError\<close>).
\<close>

theorem sendRawMessage_not_throttled:
  "timers (left (onUnexpectedError example_env example_config example_sock
             (Text ''HTTP 429 Too Many Requests'') ''send'')) = [5000]
   \<and> sendRawMessage example_env
        (left (onUnexpectedError example_env example_config example_sock
             (Text ''HTTP 429 Too Many Requests'') ''send'')) [1, 2, 3]
       = (Resolved (), [Ws_send [1, 2, 3]])
   \<and> sendRawMessage example_env example_sock [1, 2, 3] = (Resolved (), [Ws_send [1, 2, 3]])"
  by (simp add: onUnexpectedError_def text_429 rate_429 not_mac_429 backoff_wait_def
      example_config_def example_sock_def example_env_def Let_def sendRawMessage_def
      sendPromise_def promiseTimeout_def)

text \<open>
  On an error that is a string or an object, with \<open>m\<close> its lowercased text, the call
  returns normally. When \<open>m\<close> contains \<^verbatim>\<open>bad mac\<close>, or \<^verbatim>\<open>mac\<close> and
  \<^verbatim>\<open>invalid\<close>, the prekey upload is called with \<^verbatim>\<open>true\<close>, and the only consequence
  of a rejected upload is a warning in the log. When \<open>m\<close> matches neither the MAC nor
  the rate-limit pattern, the call logs the error and does nothing else.
\<close>

lemma onUnexpectedError_on_errors:
  assumes "err \<noteq> Nothing"
  shows "\<exists>m. error_message err = Inr m
       \<and> ended (onUnexpectedError e cfg s err msg) = Inr ()
       \<and> (is_bad_mac m \<longrightarrow>
            UploadPreKeysToServerIfRequired True \<in> set (performed (onUnexpectedError e cfg s err msg))
          \<and> deferred (onUnexpectedError e cfg s err msg)
              = (case uploadPreKeys_outcome e of
                   Upload_rejects x \<Rightarrow>
                     [Log LvWarn [(''e'', LThrown x)]
                        (Some ''failed to re-upload prekeys after bad mac'')]
                 | _ \<Rightarrow> []))
       \<and> (\<not> is_bad_mac m \<and> \<not> is_rate_limit m \<longrightarrow>
            onUnexpectedError e cfg s err msg
              = \<lparr>ended = Inr (), left = s,
                 performed = [Log LvError [(''err'', LThrown err)]
                                (Some (''unexpected error in '' @ [CHR 0x27] @ msg @ [CHR 0x27]))],
                 deferred = []\<rparr>)"
proof -
  from assms obtain m where m: "error_message err = Inr m"
    by (cases err) (simp_all add: error_message_def)
  then show ?thesis
    by (simp add: onUnexpectedError_def Let_def reupload_def split: upload_outcome.splits)
qed

text \<open>
  C5, the code at the failing input. The error handed to \<^verbatim>\<open>onUnexpectedError\<close> is
  \<^verbatim>\<open>undefined\<close> (or \<^verbatim>\<open>null\<close>): it has no text, so it matches neither the MAC nor
  the rate-limit pattern. The call logs it and then throws a \<^verbatim>\<open>TypeError\<close>: on line 81
  the guard \<^verbatim>\<open>err &&\<close> yields \<^verbatim>\<open>err\<close> itself and \<^verbatim>\<open>.toLowerCase()\<close> is called
  on it. On every other value of \<open>thrown\<close> the call returns normally
  (\<open>onUnexpectedError_on_errors\<close>).
\<close>

theorem onUnexpectedError_throws_without_error:
  "onUnexpectedError e cfg s Nothing msg
     = \<lparr>ended = Inl TypeError, left = s,
        performed = [Log LvError [(''err'', LThrown Nothing)]
                       (Some (''unexpected error in '' @ [CHR 0x27] @ msg @ [CHR 0x27]))],
        deferred = []\<rparr>"
  by (simp add: onUnexpectedError_def error_message_def)

subsection \<open>Waiting for the next frame\<close>

lemma off_waiting:
  "ws_off ''error'' OnClose (ws_off ''close'' OnClose (ws_off ''frame'' OnOpen (waiting base))) = base"
  by (simp add: ws_off_def waiting_def)

lemma awaitNextMessage_open:
  "isOpen s \<Longrightarrow> awaitNextMessage s attached
     = Inr \<lparr>listeners = waiting (map (\<lambda>(ev, n). (ev, Foreign n)) attached),
            result = Pending, finalized = False\<rparr>"
  by (simp add: awaitNextMessage_def ws_on_def waiting_def)

lemma result_step_settled: "result w \<noteq> Pending \<Longrightarrow> result (step w ev) = result w"
  by (cases ev) (simp_all add: settle_def)

lemma result_run_settled: "result w \<noteq> Pending \<Longrightarrow> result (run w evs) = result w"
  unfolding run_def by (induction evs arbitrary: w) (simp_all add: result_step_settled)

lemma step_pending:
  assumes "result w = Pending" and "\<not> finalized w" and "listeners w = waiting base"
  shows "result (step w ev) = outcome ev"
    and "\<not> finalized (step w ev)" and "listeners (step w ev) = waiting base"
  using assms by (cases ev; simp add: settle_def waiting_def promiseTimeout_def)+

lemma run_pending:
  assumes "result w = Pending" and "\<not> finalized w" and "listeners w = waiting base"
  shows "result (run w evs) = first_outcome evs"
  using assms
proof (induction evs arbitrary: w)
  case Nil
  then show ?case by (simp add: run_def)
next
  case (Cons ev evs)
  have r: "run w (ev # evs) = run (step w ev) evs" by (simp add: run_def)
  show ?case
  proof (cases "outcome ev = Pending")
    case True
    with Cons.prems step_pending [of w base ev] Cons.IH [of "step w ev"] r
    show ?thesis by simp
  next
    case False
    with Cons.prems step_pending(1) [of w base ev] have "result (step w ev) \<noteq> Pending" by simp
    then have "result (run (step w ev) evs) = result (step w ev)" by (rule result_run_settled)
    with False Cons.prems step_pending(1) [of w base ev] r show ?thesis by simp
  qed
qed

lemma step_attached_or_removed:
  "attached_or_removed base w \<Longrightarrow> attached_or_removed base (step w ev)"
  by (cases ev) (auto simp add: attached_or_removed_def settle_def off_waiting)

lemma run_attached_or_removed:
  "attached_or_removed base w \<Longrightarrow> attached_or_removed base (run w evs)"
  unfolding run_def by (induction evs arbitrary: w) (simp_all add: step_attached_or_removed)

lemma reactions_remove:
  assumes "attached_or_removed base w" and "result w \<noteq> Pending"
  shows "listeners (step w Reactions_run) = base \<and> finalized (step w Reactions_run)
         \<and> result (step w Reactions_run) \<noteq> Pending"
  using assms by (auto simp add: attached_or_removed_def off_waiting)

lemma step_removed:
  assumes "listeners w = base" and "finalized w" and "result w \<noteq> Pending"
     and "\<forall>x \<in> set base. snd x \<noteq> OnOpen \<and> snd x \<noteq> OnClose"
  shows "step w ev = w"
  using assms by (cases ev) (auto simp add: settle_def)

lemma run_removed:
  assumes "listeners w = base" and "finalized w" and "result w \<noteq> Pending"
     and "\<forall>x \<in> set base. snd x \<noteq> OnOpen \<and> snd x \<noteq> OnClose"
  shows "run w evs = w"
  using assms unfolding run_def by (induction evs) (simp_all add: step_removed)

lemma run_append: "run w (xs @ ys) = run (run w xs) ys"
  by (simp add: run_def)

lemma run_Cons: "run w (x # xs) = run (step w x) xs"
  by (simp add: run_def)

text \<open>
  C7. On a transport that is not open \<^verbatim>\<open>awaitNextMessage\<close> throws the Boom
  \<^verbatim>\<open>Connection Closed\<close>. On an open one it returns a pending wait, and after any
  sequence of events the wait has the outcome of the first frame, close, error or
  timeout in the sequence (pending when there was none): the first event wins and no
  later event changes the outcome. Once the wait is settled and the promise reactions
  have run, the transport's listeners are exactly those attached before the call, and
  they stay so whatever follows.
\<close>

theorem awaitNextMessage_first_event_wins:
  "(\<not> isOpen s \<longrightarrow>
      awaitNextMessage s attached
        = Inl (Boom ''Connection Closed'' DisconnectReason_connectionClosed))
   \<and> (isOpen s \<longrightarrow>
        (\<exists>w. awaitNextMessage s attached = Inr w
           \<and> result (run w evs) = first_outcome evs
           \<and> (first_outcome evs \<noteq> Pending \<longrightarrow>
                result (run w (evs @ later)) = first_outcome evs
              \<and> listeners (run w (evs @ Reactions_run # later))
                  = map (\<lambda>(ev, n). (ev, Foreign n)) attached)))"
proof (intro conjI impI)
  assume "\<not> isOpen s"
  then show "awaitNextMessage s attached
      = Inl (Boom ''Connection Closed'' DisconnectReason_connectionClosed)"
    by (simp add: awaitNextMessage_def)
next
  assume op: "isOpen s"
  let ?base = "map (\<lambda>(ev, n). (ev, Foreign n)) attached"
  let ?w = "\<lparr>listeners = waiting ?base, result = Pending, finalized = False\<rparr>"
  have w: "awaitNextMessage s attached = Inr ?w" using op by (rule awaitNextMessage_open)
  have r: "result (run ?w evs) = first_outcome evs" by (rule run_pending [of _ ?base]) simp_all
  have foreign: "\<forall>x \<in> set ?base. snd x \<noteq> OnOpen \<and> snd x \<noteq> OnClose" by auto
  have inv: "attached_or_removed ?base (run ?w evs)"
    by (rule run_attached_or_removed) (simp add: attached_or_removed_def)
  {
    assume settled: "first_outcome evs \<noteq> Pending"
    with r have "result (run ?w evs) \<noteq> Pending" by simp
    then have "result (run ?w (evs @ later)) = result (run ?w evs)"
      unfolding run_append by (rule result_run_settled)
    with r have a: "result (run ?w (evs @ later)) = first_outcome evs" by simp
    from inv settled r
    have "listeners (step (run ?w evs) Reactions_run) = ?base
          \<and> finalized (step (run ?w evs) Reactions_run)
          \<and> result (step (run ?w evs) Reactions_run) \<noteq> Pending"
      by (intro reactions_remove) simp_all
    then have "run (step (run ?w evs) Reactions_run) later = step (run ?w evs) Reactions_run"
      and "listeners (step (run ?w evs) Reactions_run) = ?base"
      using foreign by (simp_all add: run_removed [of _ ?base])
    then have b: "listeners (run ?w (evs @ Reactions_run # later)) = ?base"
      by (simp add: run_append run_Cons)
    note a b
  }
  with w r show "\<exists>w. awaitNextMessage s attached = Inr w
           \<and> result (run w evs) = first_outcome evs
           \<and> (first_outcome evs \<noteq> Pending \<longrightarrow>
                result (run w (evs @ later)) = first_outcome evs
              \<and> listeners (run w (evs @ Reactions_run # later))
                  = map (\<lambda>(ev, n). (ev, Foreign n)) attached)"
    by blast
qed


theorem awaitNextMessage_first_event_wins_witness:
  "isOpen example_sock
   \<and> awaitNextMessage example_sock [(''frame'', 7)]
       = Inr \<lparr>listeners = [(''frame'', Foreign 7), (''frame'', OnOpen), (''close'', OnClose),
                            (''error'', OnClose)],
              result = Pending, finalized = False\<rparr>
   \<and> first_outcome [Emit_frame [1, 2], Emit_close Nothing] = Resolved [1, 2]
   \<and> result (run \<lparr>listeners = [(''frame'', Foreign 7), (''frame'', OnOpen), (''close'', OnClose),
                                (''error'', OnClose)],
                   result = Pending, finalized = False\<rparr>
              [Emit_frame [1, 2], Emit_close Nothing, Timer_fires]) = Resolved [1, 2]
   \<and> listeners (run \<lparr>listeners = [(''frame'', Foreign 7), (''frame'', OnOpen), (''close'', OnClose),
                                   (''error'', OnClose)],
                      result = Pending, finalized = False\<rparr>
                 [Emit_frame [1, 2], Emit_close Nothing, Reactions_run, Timer_fires])
       = [(''frame'', Foreign 7)]
   \<and> \<not> isOpen (example_sock\<lparr>isOpen := False\<rparr>)
   \<and> awaitNextMessage (example_sock\<lparr>isOpen := False\<rparr>) [(''frame'', 7)]
       = Inl (Boom ''Connection Closed'' DisconnectReason_connectionClosed)"
proof -
  have o: "isOpen example_sock" by (simp add: example_sock_def)
  have a: "awaitNextMessage example_sock [(''frame'', 7)]
       = Inr \<lparr>listeners = [(''frame'', Foreign 7), (''frame'', OnOpen), (''close'', OnClose),
                            (''error'', OnClose)],
              result = Pending, finalized = False\<rparr>"
    by (simp add: awaitNextMessage_def example_sock_def ws_on_def)
  have f: "first_outcome [Emit_frame [1, 2], Emit_close Nothing] = Resolved [1, 2]" by simp
  from awaitNextMessage_first_event_wins
    [of example_sock "[(''frame'', 7)]" "[Emit_frame [1, 2], Emit_close Nothing]" "[Timer_fires]"]
    awaitNextMessage_first_event_wins
    [of "example_sock\<lparr>isOpen := False\<rparr>" "[(''frame'', 7)]" "[]" "[]"]
    o a f
  show ?thesis by simp
qed

subsection \<open>Offline notifications and credentials\<close>

lemma example_sock_creds:
  "creds example_sock = JRef 1"
  "get (heap example_sock (authState example_sock)) ''creds'' = JRef 1"
  "authState example_sock \<noteq> 1"
  by (simp_all add: example_sock_def example_heap_def get_def)

text \<open>
  C8. When the node \<^verbatim>\<open>CB:ib,,offline\<close> arrives, \<^verbatim>\<open>ev.flush()\<close> is called if and
  only if \<^verbatim>\<open>didStartBuffer\<close> is set, and in either case the last thing the listener
  does, after the flush if there is one, is to emit \<^verbatim>\<open>connection.update\<close> with
  \<^verbatim>\<open>receivedPendingNotifications: true\<close>, once.
\<close>

theorem on_offline_flush_iff_started:
  "(Ev_flush \<in> set (butlast (on_offline e s n))) = didStartBuffer s
   \<and> last (on_offline e s n)
       = Ev_emit ''connection.update'' [(''receivedPendingNotifications'', JBool True)]
   \<and> length (filter (\<lambda>x. x = Ev_emit ''connection.update''
                 [(''receivedPendingNotifications'', JBool True)]) (on_offline e s n)) = 1"
  by (simp add: on_offline_def Let_def butlast_append)

theorem on_offline_flush_iff_started_witness:
  "didStartBuffer (fst (start_buffer True example_sock))
   \<and> Ev_flush \<in> set (butlast (on_offline example_env (fst (start_buffer True example_sock))
        (Node ''ib'' [] (Children [Node ''offline'' [(''count'', JStr ''12'')] NoContent]))))
   \<and> \<not> didStartBuffer example_sock
   \<and> Ev_flush \<notin> set (butlast (on_offline example_env example_sock
        (Node ''ib'' [] (Children [Node ''offline'' [(''count'', JStr ''12'')] NoContent]))))"
  using on_offline_flush_iff_started [of example_env "fst (start_buffer True example_sock)"
      "Node ''ib'' [] (Children [Node ''offline'' [(''count'', JStr ''12'')] NoContent])"]
    on_offline_flush_iff_started [of example_env example_sock
      "Node ''ib'' [] (Children [Node ''offline'' [(''count'', JStr ''12'')] NoContent])"]
  by (simp add: start_buffer_def example_sock_def)

text \<open>
  C9. Let the constant \<^verbatim>\<open>creds\<close> and \<^verbatim>\<open>authState.creds\<close> both refer to the object
  at \<open>c\<close>, which is not the \<^verbatim>\<open>authState\<close> object itself. After the listener of
  \<^verbatim>\<open>creds.update\<close> has handled an update, every property named in the update has the
  update's value in that object, every other property of it is as before, no other
  object has changed, both references still point to \<open>c\<close>, and the accessor
  \<^verbatim>\<open>user\<close> returns the property \<^verbatim>\<open>me\<close> of the merged object.
\<close>

theorem creds_update_merges_in_place:
  assumes "creds s = JRef c"
    and "get (heap s (authState s)) ''creds'' = JRef c"
    and "authState s \<noteq> c"
  shows "ended (on_creds_update e cfg s update) = Inr ()
       \<and> (\<forall>k v. update k = Some v \<longrightarrow> heap (left (on_creds_update e cfg s update)) c k = Some v)
       \<and> (\<forall>k. update k = None \<longrightarrow> heap (left (on_creds_update e cfg s update)) c k = heap s c k)
       \<and> (\<forall>a. a \<noteq> c \<longrightarrow> heap (left (on_creds_update e cfg s update)) a = heap s a)
       \<and> creds (left (on_creds_update e cfg s update)) = JRef c
       \<and> authState (left (on_creds_update e cfg s update)) = authState s
       \<and> get (heap (left (on_creds_update e cfg s update)) (authState s)) ''creds'' = JRef c
       \<and> user (left (on_creds_update e cfg s update)) = Inr (get (heap s c ++ update) ''me'')"
  using assms
  by (simp add: on_creds_update_def Let_def user_def map_add_def)

theorem creds_update_merges_in_place_witness:
  "creds example_sock = JRef 1
   \<and> get (heap example_sock (authState example_sock)) ''creds'' = JRef 1
   \<and> authState example_sock \<noteq> 1
   \<and> heap (left (on_creds_update example_env example_config example_sock
         [''me'' \<mapsto> JRef 4, ''platform'' \<mapsto> JStr ''android''])) 1 ''me'' = Some (JRef 4)
   \<and> heap (left (on_creds_update example_env example_config example_sock
         [''me'' \<mapsto> JRef 4, ''platform'' \<mapsto> JStr ''android''])) 1 ''platform''
       = Some (JStr ''android'')
   \<and> heap (left (on_creds_update example_env example_config example_sock
         [''me'' \<mapsto> JRef 4, ''platform'' \<mapsto> JStr ''android''])) 1 ''registered''
       = Some (JBool True)
   \<and> user (left (on_creds_update example_env example_config example_sock
         [''me'' \<mapsto> JRef 4, ''platform'' \<mapsto> JStr ''android''])) = Inr (JRef 4)"
  using creds_update_merges_in_place [OF example_sock_creds, of example_env example_config
      "[''me'' \<mapsto> JRef 4, ''platform'' \<mapsto> JStr ''android'']"]
  by (simp add: example_sock_creds example_sock_def example_heap_def get_def)

text \<open>
  C10. Let \<^verbatim>\<open>creds\<close> refer to the object at \<open>c\<close>. When the name of the update
  (\<^verbatim>\<open>update.me?.name\<close>, undefined when the update has none) differs from
  \<^verbatim>\<open>creds.me?.name\<close>, the listener logs the new name and sends the node with the tag
  \<^verbatim>\<open>presence\<close> and the single attribute \<^verbatim>\<open>name\<close> holding that name: on an open
  transport the frame of the encoded node is handed to \<^verbatim>\<open>ws.send\<close>, and a rejection
  of the send leads to a warning in the log; on a closed transport nothing is handed
  over and the warning names the closed connection. When the two names are equal
  nothing is logged or sent. In every case the listener returns normally and the
  credentials are merged.
\<close>

theorem creds_update_presence:
  assumes "creds s = JRef c"
  shows "(opt_chain (heap s) (get (heap s c) ''me'') ''name''
            \<noteq> opt_chain (heap s) (get update ''me'') ''name'' \<and> isOpen s \<longrightarrow>
           performed (on_creds_update e cfg s update)
             = Log LvDebug [(''name'', LVal (opt_chain (heap s) (get update ''me'') ''name''))]
                 (Some ''updated pushName'')
               # (if logger_level cfg = ''trace''
                  then [Log LvTrace
                          [(''xml'', LText (binaryNodeToString e
                              (Node ''presence''
                                 [(''name'', opt_chain (heap s) (get update ''me'') ''name'')]
                                 NoContent))),
                           (''msg'', LText ''xml send'')] None]
                  else [])
               @ [Ws_send (encodeFrame e (encodeBinaryNode e
                    (Node ''presence''
                       [(''name'', opt_chain (heap s) (get update ''me'') ''name'')]
                       NoContent)))]
         \<and> deferred (on_creds_update e cfg s update)
             = (case ws_send e (encodeFrame e (encodeBinaryNode e
                        (Node ''presence''
                           [(''name'', opt_chain (heap s) (get update ''me'') ''name'')]
                           NoContent))) of
                  Send_ok \<Rightarrow> []
                | Send_error x \<Rightarrow>
                    if truthy_thrown x
                    then [Log LvWarn [(''trace'', LStackOf (Raised x))]
                            (Some ''error in sending presence update on name change'')]
                    else []
                | Send_silent \<Rightarrow>
                    [Log LvWarn
                       [(''trace'', LStackOf (Boom ''Timed Out'' DisconnectReason_timedOut))]
                       (Some ''error in sending presence update on name change'')]))
       \<and> (opt_chain (heap s) (get (heap s c) ''me'') ''name''
            \<noteq> opt_chain (heap s) (get update ''me'') ''name'' \<and> \<not> isOpen s \<longrightarrow>
           (\<forall>b. Ws_send b \<notin> set (performed (on_creds_update e cfg s update)))
         \<and> deferred (on_creds_update e cfg s update)
             = [Log LvWarn
                  [(''trace'',
                    LStackOf (Boom ''Connection Closed'' DisconnectReason_connectionClosed))]
                  (Some ''error in sending presence update on name change'')])
       \<and> (opt_chain (heap s) (get (heap s c) ''me'') ''name''
            = opt_chain (heap s) (get update ''me'') ''name'' \<longrightarrow>
           performed (on_creds_update e cfg s update) = []
         \<and> deferred (on_creds_update e cfg s update) = [])
       \<and> ended (on_creds_update e cfg s update) = Inr ()
       \<and> left (on_creds_update e cfg s update) = s\<lparr>heap := (heap s)(c := heap s c ++ update)\<rparr>"
  using assms
  by (simp add: on_creds_update_def presence_def Let_def sendNode_def sendRawMessage_def
      sendPromise_def promiseTimeout_def split: send_outcome.splits)

theorem creds_update_presence_witness:
  "creds example_sock = JRef 1 \<and> isOpen example_sock
   \<and> opt_chain (heap example_sock) (get (heap example_sock 1) ''me'') ''name'' = JStr ''Ann''
   \<and> opt_chain (heap example_sock) (get [''registered'' \<mapsto> JBool False] ''me'') ''name'' = JUndefined
   \<and> performed (on_creds_update example_env example_config example_sock
         [''registered'' \<mapsto> JBool False])
       = [Log LvDebug [(''name'', LVal JUndefined)] (Some ''updated pushName''),
          Ws_send (map of_char ''presence'')]
   \<and> opt_chain (heap example_sock) (get [''me'' \<mapsto> JRef 4] ''me'') ''name'' = JStr ''Bob''
   \<and> performed (on_creds_update example_env example_config example_sock [''me'' \<mapsto> JRef 4])
       = [Log LvDebug [(''name'', LVal (JStr ''Bob''))] (Some ''updated pushName''),
          Ws_send (map of_char ''presence name=Bob'')]
   \<and> creds (example_sock\<lparr>isOpen := False\<rparr>) = JRef 1
   \<and> \<not> isOpen (example_sock\<lparr>isOpen := False\<rparr>)
   \<and> deferred (on_creds_update example_env example_config (example_sock\<lparr>isOpen := False\<rparr>)
         [''registered'' \<mapsto> JBool False])
       = [Log LvWarn
            [(''trace'', LStackOf (Boom ''Connection Closed'' DisconnectReason_connectionClosed))]
            (Some ''error in sending presence update on name change'')]
   \<and> heap (left (on_creds_update example_env example_config (example_sock\<lparr>isOpen := False\<rparr>)
         [''registered'' \<mapsto> JBool False])) 1 ''registered'' = Some (JBool False)
   \<and> opt_chain (heap example_sock) (get [''me'' \<mapsto> JRef 2] ''me'') ''name'' = JStr ''Ann''
   \<and> performed (on_creds_update example_env example_config example_sock [''me'' \<mapsto> JRef 2]) = []"
  using creds_update_presence [OF example_sock_creds(1), of "[''registered'' \<mapsto> JBool False]"
      example_env example_config]
    creds_update_presence [OF example_sock_creds(1), of "[''me'' \<mapsto> JRef 4]"
      example_env example_config]
    creds_update_presence [of "example_sock\<lparr>isOpen := False\<rparr>" 1
      "[''registered'' \<mapsto> JBool False]" example_env example_config]
    creds_update_presence [OF example_sock_creds(1), of "[''me'' \<mapsto> JRef 2]"
      example_env example_config]
  by (simp add: example_sock_def example_heap_def example_env_def example_config_def get_def
      opt_chain_def example_encodeBinaryNode_def)

end
